theory Spec2Isabelle
  imports Complex_Main "HOL-Library.Word"
begin

section \<open>Data model of frontend/app.js\<close>

text \<open>
  The application is single-threaded and event driven. Every callback of the source is a
  function from the application state to the application state; an \<open>async\<close> function is
  one function per segment between two \<open>await\<close>s. What the browser decides (the current
  time, the spectrum the analyser reports, whether a constructor throws, which event comes
  next) is a parameter of the segment it reaches.
\<close>

subsection \<open>Values exchanged with the browser\<close>

text \<open>A \<open>Blob\<close> is its bytes; \<open>blob.size\<close> is their number.\<close>

type_synonym blob = "8 word list"

text \<open>
  Base64 text on the wire: either the encoding of some bytes, or text \<open>atob\<close> rejects.
  \<open>blobToBase64 b\<close> of the source yields \<open>Base64 b\<close>.
\<close>

datatype base64 = Base64 blob | Malformed

datatype js_error = JsError (err_name: string) (message: string)

datatype url = ObjectURL nat blob

type_synonym promise_id = nat
type_synonym socket_id = nat

datatype js_value = VBool bool | VSocket "socket_id option"

datatype settlement = Resolved js_value | Rejected js_error

datatype ready_state = CONNECTING | OPEN | CLOSING | CLOSED

text \<open>
  A \<open>WebSocket\<close> object: its ready state, and the promise whose \<open>resolve\<close> and \<open>reject\<close>
  the \<open>onopen\<close> and \<open>onerror\<close> closures of \<open>WebSocketManager.connect\<close> captured.
\<close>

record socket =
  readyState :: ready_state
  opener :: promise_id

text \<open>The outbound request \<open>{type: 'audio', data, model}\<close>.\<close>

record audio_request =
  req_data :: base64
  req_model :: string

text \<open>
  An inbound message after \<open>JSON.parse\<close>: an object whose fields may be absent
  (\<open>None\<close> reads as \<open>undefined\<close>).
\<close>

record message =
  msg_type :: "string option"
  msg_content :: "string option"
  msg_full_transcript :: "string option"
  msg_audio :: "base64 option"
  msg_index :: "int option"
  msg_sentence :: "string option"
  msg_message :: "string option"

datatype recorder_state = Inactive | Recording | Paused

datatype media_stream = MediaStream nat

datatype audio_context = AudioContext

record analyser_node =
  fftSize :: nat
  smoothingTimeConstant :: real

subsection \<open>CONFIG and STATUS\<close>

record vad_config =
  volumeThreshold :: real
  silenceTimeout :: int
  minSpeechDuration :: int
  minAudioSize :: nat

definition CONFIG_VAD :: vad_config where
  "CONFIG_VAD = \<lparr>volumeThreshold = 15, silenceTimeout = 1000,
     minSpeechDuration = 300, minAudioSize = 1000\<rparr>"

datatype status = READY | RECORDING | PROCESSING

subsection \<open>The \<open>state\<close> object\<close>

record recording_state =
  rec_mediaRecorder :: "recorder_state option"
  rec_chunks :: "blob list"
  rec_isActive :: bool
  rec_startTime :: "int option"
  rec_timer :: "nat option"

record queue_item =
  item_url :: url
  item_index :: "int option"
  item_sentence :: "string option"

record audio_state =
  queue :: "queue_item list"
  isPlaying :: bool
  currentIndex :: nat

record vad_state =
  isEnabled :: bool
  isProcessing :: bool
  isSpeaking :: bool
  silenceStart :: "int option"
  speechStart :: "int option"
  stream :: "media_stream option"
  vad_mediaRecorder :: "recorder_state option"
  audioChunks :: "blob list"
  audioContext :: "audio_context option"
  analyser :: "analyser_node option"
  animationFrame :: "nat option"

subsection \<open>The DOM elements the code writes\<close>

datatype log_type = LogInfo | LogSuccess | LogError

text \<open>
  The text of a log line. The two lines that format a number keep the number
  (milliseconds, bytes) instead of its decimal rendering; so do the two duration
  displays (milliseconds) and the silence countdown. The check mark that opens two of
  the log lines is left out.
\<close>

datatype log_text = Text string | CompleteAfter int | SendingAudio nat

datatype button_label = StartRecording | StopRecording | HandsFreeActive

datatype volume_text = Listening | Speaking | Silence int | ProcessingText | AISpeaking

record elements =
  transcript_text :: string
  transcript_streaming :: bool
  response_text :: string
  response_streaming :: bool
  sttBadge_hidden :: bool
  llmBadge_hidden :: bool
  speakingBadge_hidden :: bool
  statusIndicator :: status
  statusText :: string
  recordingDuration :: int
  processingTime :: int
  logs :: "(log_text \<times> log_type) list"
  recordBtn_disabled :: bool
  recordBtn_text :: button_label
  handsFreeToggle_checked :: bool
  volumeMeter_hidden :: bool
  volumeBar_width :: real
  volumeStatus_text :: volume_text
  volumeStatus_class :: string
  modelSelect_value :: string

text \<open>
  The \<open>audio\<close> element. \<open>outputting\<close> is true from a \<open>play()\<close> until the chunk ends, is
  rejected or is paused; \<open>play_attempts\<close> lists the sources \<open>play()\<close> was called on;
  \<open>interrupted\<close> lists the sources that were replaced while they were still being output.
\<close>

record audio_player =
  player_src :: "url option"
  player_hidden :: bool
  outputting :: bool
  play_attempts :: "url list"
  interrupted :: "url list"

text \<open>
  What lives outside the page's own objects: the sockets created so far (a socket's id is
  its position), the requests sent, the promises created and every call of a \<open>resolve\<close> or
  \<open>reject\<close> function in order, the object URLs handed out, the animation frames requested.
\<close>

record environment =
  sockets :: "socket list"
  sent :: "(socket_id \<times> audio_request) list"
  promise_counter :: nat
  settle_calls :: "(promise_id \<times> settlement) list"
  url_counter :: nat
  raf_counter :: nat
  raf_pending :: "nat list"

record app_state =
  websocket :: "socket_id option"
  pipelineResolve :: "promise_id option"
  processingStartTime :: "int option"
  recording :: recording_state
  audio :: audio_state
  vad :: vad_state
  elements :: elements
  audioPlayer :: audio_player
  env :: environment

section \<open>Promises\<close>

definition new_promise :: "app_state \<Rightarrow> promise_id \<times> app_state" where
  "new_promise s =
     (promise_counter (env s),
      s\<lparr>env := (env s)\<lparr>promise_counter := Suc (promise_counter (env s))\<rparr>\<rparr>)"

text \<open>A call of a promise's \<open>resolve\<close> or \<open>reject\<close> function.\<close>

definition settle :: "promise_id \<Rightarrow> settlement \<Rightarrow> app_state \<Rightarrow> app_state" where
  "settle p v s = s\<lparr>env := (env s)\<lparr>settle_calls := settle_calls (env s) @ [(p, v)]\<rparr>\<rparr>"

text \<open>The state of a promise: the first call wins, later calls have no effect.\<close>

definition promise_state :: "app_state \<Rightarrow> promise_id \<Rightarrow> settlement option" where
  "promise_state s p = map_of (settle_calls (env s)) p"

text \<open>How many times the resolving functions of a promise were called.\<close>

definition times_settled :: "app_state \<Rightarrow> promise_id \<Rightarrow> nat" where
  "times_settled s p = length (filter (\<lambda>c. fst c = p) (settle_calls (env s)))"

section \<open>Utilities\<close>

definition log :: "log_text \<Rightarrow> log_type \<Rightarrow> app_state \<Rightarrow> app_state" where
  "log m t s = s\<lparr>elements := (elements s)\<lparr>logs := logs (elements s) @ [(m, t)]\<rparr>\<rparr>"

definition setStatus :: "status \<Rightarrow> string \<Rightarrow> app_state \<Rightarrow> app_state" where
  "setStatus st txt s =
     s\<lparr>elements := (elements s)\<lparr>statusIndicator := st, statusText := txt\<rparr>\<rparr>"

text \<open>\<open>startStreamingEffect\<close> and \<open>stopStreamingEffect\<close>, at their two call shapes.\<close>

definition startStreaming_transcript :: "app_state \<Rightarrow> app_state" where
  "startStreaming_transcript s =
     s\<lparr>elements := (elements s)\<lparr>transcript_streaming := True, sttBadge_hidden := False\<rparr>\<rparr>"

definition stopStreaming_transcript :: "app_state \<Rightarrow> app_state" where
  "stopStreaming_transcript s =
     s\<lparr>elements := (elements s)\<lparr>transcript_streaming := False, sttBadge_hidden := True\<rparr>\<rparr>"

definition startStreaming_response :: "app_state \<Rightarrow> app_state" where
  "startStreaming_response s =
     s\<lparr>elements := (elements s)\<lparr>response_streaming := True, llmBadge_hidden := False\<rparr>\<rparr>"

definition stopStreaming_response :: "app_state \<Rightarrow> app_state" where
  "stopStreaming_response s =
     s\<lparr>elements := (elements s)\<lparr>response_streaming := False, llmBadge_hidden := True\<rparr>\<rparr>"

text \<open>\<open>atob\<close> throws on text that is not base64; an absent field reads as such text.\<close>

definition base64ToBlob :: "base64 option \<Rightarrow> js_error + blob" where
  "base64ToBlob a =
     (case a of
        Some (Base64 b) \<Rightarrow> Inr b
      | Some Malformed \<Rightarrow> Inl (JsError ''InvalidCharacterError'' ''invalid base64'')
      | None \<Rightarrow> Inl (JsError ''InvalidCharacterError'' ''invalid base64''))"

definition createObjectURL :: "blob \<Rightarrow> app_state \<Rightarrow> url \<times> app_state" where
  "createObjectURL b s =
     (ObjectURL (url_counter (env s)) b,
      s\<lparr>env := (env s)\<lparr>url_counter := Suc (url_counter (env s))\<rparr>\<rparr>)"

text \<open>String conversion of a possibly absent string field.\<close>

definition js_string :: "string option \<Rightarrow> string" where
  "js_string v = (case v of None \<Rightarrow> ''undefined'' | Some t \<Rightarrow> t)"

section \<open>AudioQueue\<close>

text \<open>
  Assigning \<open>audioPlayer.src\<close> and calling \<open>play()\<close>: a source still being output is cut
  off by the assignment.
\<close>

definition player_load_and_play :: "url \<Rightarrow> audio_player \<Rightarrow> audio_player" where
  "player_load_and_play u p =
     p\<lparr>interrupted :=
          (case player_src p of
             Some old \<Rightarrow> if outputting p then interrupted p @ [old] else interrupted p
           | None \<Rightarrow> interrupted p),
       player_src := Some u,
       player_hidden := False,
       outputting := True,
       play_attempts := play_attempts p @ [u]\<rparr>"

definition playNext :: "app_state \<Rightarrow> app_state" where
  "playNext s =
     (case queue (audio s) of
        [] \<Rightarrow>
          (let s1 = s\<lparr>audio := (audio s)\<lparr>isPlaying := False\<rparr>,
                      elements := (elements s)\<lparr>speakingBadge_hidden := True\<rparr>\<rparr>
           in if isEnabled (vad s1) \<and> \<not> isProcessing (vad s1)
              then setStatus READY ''Ready - speak anytime''
                     (s1\<lparr>elements := (elements s1)\<lparr>volumeStatus_text := Listening,
                                                    volumeStatus_class := ''volume-status''\<rparr>\<rparr>)
              else s1)
      | next # rest \<Rightarrow>
          s\<lparr>audio := (audio s)\<lparr>isPlaying := True, queue := rest\<rparr>,
            elements := (elements s)\<lparr>speakingBadge_hidden := False\<rparr>,
            audioPlayer := player_load_and_play (item_url next) (audioPlayer s)\<rparr>)"

definition AudioQueue_add ::
  "base64 option \<Rightarrow> int option \<Rightarrow> string option \<Rightarrow> app_state \<Rightarrow> js_error option \<times> app_state"
where
  "AudioQueue_add audioBase64 index sentence s =
     (case base64ToBlob audioBase64 of
        Inl e \<Rightarrow> (Some e, s)
      | Inr b \<Rightarrow>
          (let (u, s1) = createObjectURL b s;
               s2 = s1\<lparr>audio := (audio s1)\<lparr>queue := queue (audio s1) @
                         [\<lparr>item_url = u, item_index = index, item_sentence = sentence\<rparr>]\<rparr>\<rparr>
           in (None, if \<not> isPlaying (audio s2) then playNext s2 else s2)))"

definition AudioQueue_reset :: "app_state \<Rightarrow> app_state" where
  "AudioQueue_reset s =
     s\<lparr>audio := (audio s)\<lparr>queue := [], isPlaying := False, currentIndex := 0\<rparr>,
       elements := (elements s)\<lparr>speakingBadge_hidden := True\<rparr>\<rparr>"

text \<open>The \<open>ended\<close> listener: the chunk has been output to its end.\<close>

definition audioPlayer_ended :: "app_state \<Rightarrow> app_state" where
  "audioPlayer_ended s = playNext (s\<lparr>audioPlayer := (audioPlayer s)\<lparr>outputting := False\<rparr>\<rparr>)"

text \<open>The \<open>catch\<close> of \<open>play()\<close>: the device rejected the chunk.\<close>

definition audioPlayer_play_rejected :: "js_error \<Rightarrow> app_state \<Rightarrow> app_state" where
  "audioPlayer_play_rejected err s =
     playNext (log (Text (''Audio play error: '' @ message err)) LogError
                 (s\<lparr>audioPlayer := (audioPlayer s)\<lparr>outputting := False\<rparr>\<rparr>))"

text \<open>The \<open>pause\<close> listener.\<close>

definition audioPlayer_paused :: "app_state \<Rightarrow> app_state" where
  "audioPlayer_paused s =
     (if queue (audio s) = []
      then s\<lparr>elements := (elements s)\<lparr>speakingBadge_hidden := True\<rparr>\<rparr>
      else s)"

section \<open>VAD\<close>

text \<open>\<open>requestAnimationFrame\<close> and \<open>cancelAnimationFrame\<close>; handles are non-zero.\<close>

definition requestAnimationFrame :: "app_state \<Rightarrow> nat \<times> app_state" where
  "requestAnimationFrame s =
     (let h = Suc (raf_counter (env s))
      in (h, s\<lparr>env := (env s)\<lparr>raf_counter := h, raf_pending := raf_pending (env s) @ [h]\<rparr>\<rparr>))"

definition cancelAnimationFrame :: "nat \<Rightarrow> app_state \<Rightarrow> app_state" where
  "cancelAnimationFrame h s =
     s\<lparr>env := (env s)\<lparr>raf_pending := filter (\<lambda>x. x \<noteq> h) (raf_pending (env s))\<rparr>\<rparr>"

text \<open>
  \<open>state.vad.animationFrame = requestAnimationFrame(() => this.monitorVolume())\<close>
\<close>

definition schedule_monitorVolume :: "app_state \<Rightarrow> app_state" where
  "schedule_monitorVolume s =
     (let (h, s1) = requestAnimationFrame s
      in s1\<lparr>vad := (vad s1)\<lparr>animationFrame := Some h\<rparr>\<rparr>)"

text \<open>\<open>now - t\<close> where \<open>t\<close> may be \<open>null\<close> (which counts as 0).\<close>

definition since :: "int \<Rightarrow> int option \<Rightarrow> int" where
  "since now t = (case t of None \<Rightarrow> now | Some t0 \<Rightarrow> now - t0)"

text \<open>
  \<open>onSpeechDetected(now)\<close>. \<open>mediaRecorder.start()\<close> can throw (a stream that has
  gone inactive gives \<open>NotSupportedError\<close>); \<open>start_fault\<close> is the error it throws if
  it is called. Nothing catches it: the assignments made before the call stay, the rest
  of the function does not run, and the error leaves the function.
\<close>

definition onSpeechDetected ::
  "js_error option \<Rightarrow> int \<Rightarrow> app_state \<Rightarrow> js_error option \<times> app_state"
where
  "onSpeechDetected start_fault now s =
     (let (thrown, s1) =
        (if \<not> isSpeaking (vad s)
         then
           (let s0 = s\<lparr>vad := (vad s)\<lparr>isSpeaking := True, speechStart := Some now,
                                       silenceStart := None, audioChunks := []\<rparr>\<rparr>
            in if vad_mediaRecorder (vad s0) = Some Inactive
               then (case start_fault of
                       Some e \<Rightarrow> (Some e, s0)
                     | None \<Rightarrow>
                         (None, setStatus RECORDING ''Listening...''
                            (s0\<lparr>vad := (vad s0)\<lparr>vad_mediaRecorder := Some Recording\<rparr>,
                                recording := (recording s0)\<lparr>rec_startTime := Some now\<rparr>\<rparr>)))
               else (None, s0))
         else (None, s))
      in case thrown of
           Some e \<Rightarrow> (Some e, s1)
         | None \<Rightarrow>
             (None, s1\<lparr>elements := (elements s1)\<lparr>volumeStatus_text := Speaking,
                                        volumeStatus_class := ''volume-status speaking''\<rparr>,
                       vad := (vad s1)\<lparr>silenceStart := None\<rparr>\<rparr>))"

text \<open>
  \<open>onSilenceDetected(now)\<close>. \<open>if (!state.vad.silenceStart)\<close>: a time stamp of 0 is
  falsy as \<open>null\<close> is. \<open>mediaRecorder.stop()\<close> throws only on an inactive recorder,
  and it is called on a recording one.
\<close>

definition onSilenceDetected :: "int \<Rightarrow> app_state \<Rightarrow> app_state" where
  "onSilenceDetected now s =
     (if isSpeaking (vad s)
      then
        (let s1 = (if silenceStart (vad s) = None \<or> silenceStart (vad s) = Some 0
                   then s\<lparr>vad := (vad s)\<lparr>silenceStart := Some now\<rparr>\<rparr> else s);
             silenceDuration = since now (silenceStart (vad s1));
             s2 = s1\<lparr>elements := (elements s1)\<lparr>volumeStatus_text :=
                        Silence (silenceTimeout CONFIG_VAD - silenceDuration)\<rparr>\<rparr>
         in if silenceDuration \<ge> silenceTimeout CONFIG_VAD
            then
              (let s3 = s2\<lparr>vad := (vad s2)\<lparr>isSpeaking := False\<rparr>\<rparr>;
                   s4 = (if vad_mediaRecorder (vad s3) = Some Recording
                         then s3\<lparr>elements := (elements s3)\<lparr>recordingDuration :=
                                    since now (rec_startTime (recording s3))\<rparr>,
                                 vad := (vad s3)\<lparr>vad_mediaRecorder := Some Inactive\<rparr>\<rparr>
                         else s3)
               in s4\<lparr>vad := (vad s4)\<lparr>silenceStart := None, speechStart := None\<rparr>\<rparr>)
            else s2)
      else s\<lparr>elements := (elements s)\<lparr>volumeStatus_text := Listening,
                                       volumeStatus_class := ''volume-status''\<rparr>\<rparr>)"

text \<open>
  One tick of the sampling loop. \<open>freq\<close> is the spectrum \<open>getByteFrequencyData\<close> writes
  into the array of \<open>frequencyBinCount\<close> (half of \<open>fftSize\<close>) bytes. \<open>reduce\<close> without
  an initial value throws on an empty array. An error thrown by \<open>onSpeechDetected\<close>
  leaves the tick before its last line, the \<open>requestAnimationFrame\<close>.
\<close>

definition frequencyBinCount :: "analyser_node \<Rightarrow> nat" where
  "frequencyBinCount a = fftSize a div 2"

text \<open>The two constants \<open>average\<close> and \<open>volumePercent\<close> of the tick.\<close>

definition volumePercent :: "8 word list \<Rightarrow> real" where
  "volumePercent dataArray =
     (let average = real (sum_list (map unat dataArray)) / real (length dataArray)
      in min 100 ((average / 128) * 100))"

definition monitorVolume ::
  "(nat \<Rightarrow> 8 word) \<Rightarrow> js_error option \<Rightarrow> int \<Rightarrow> app_state \<Rightarrow> js_error option \<times> app_state"
where
  "monitorVolume freq start_fault now s =
     (case analyser (vad s) of
        None \<Rightarrow> (None, s)
      | Some a \<Rightarrow>
          if \<not> isEnabled (vad s) then (None, s)
          else
            (let dataArray = map freq [0..<frequencyBinCount a]
             in if dataArray = []
                then (Some (JsError ''TypeError'' ''Reduce of empty array with no initial value''), s)
                else
                  (let s1 = s\<lparr>elements := (elements s)\<lparr>volumeBar_width :=
                                volumePercent dataArray\<rparr>\<rparr>
                   in if isProcessing (vad s1) \<or> isPlaying (audio s1)
                      then (None, schedule_monitorVolume
                              (s1\<lparr>elements := (elements s1)\<lparr>
                                    volumeStatus_text :=
                                      (if isPlaying (audio s1) then AISpeaking else ProcessingText),
                                    volumeStatus_class := ''volume-status processing''\<rparr>\<rparr>))
                      else
                        (case (if volumePercent dataArray > volumeThreshold CONFIG_VAD
                               then onSpeechDetected start_fault now s1
                               else (None, onSilenceDetected now s1)) of
                           (Some e, s2) \<Rightarrow> (Some e, s2)
                         | (None, s2) \<Rightarrow> (None, schedule_monitorVolume s2)))))"


text \<open>
  \<open>VAD.start\<close> after \<open>await getUserMedia\<close>. The constructors of the \<open>try\<close> block may
  throw, and so may the recorder's \<open>start()\<close> in the first tick, which runs inside the
  \<open>try\<close>; \<open>setup_faults\<close> says which do.
\<close>

record setup_faults =
  new_AudioContext :: "js_error option"
  createMediaStreamSource :: "js_error option"
  new_MediaRecorder :: "js_error option"
  recorder_start :: "js_error option"

definition VAD_start_catch :: "js_error \<Rightarrow> app_state \<Rightarrow> app_state" where
  "VAD_start_catch e s =
     (let s1 = log (Text (''Microphone error: '' @ message e)) LogError s
      in s1\<lparr>elements := (elements s1)\<lparr>handsFreeToggle_checked := False\<rparr>,
            vad := (vad s1)\<lparr>isEnabled := False\<rparr>\<rparr>)"

definition VAD_start ::
  "js_error + media_stream \<Rightarrow> setup_faults \<Rightarrow> (nat \<Rightarrow> 8 word) \<Rightarrow> int \<Rightarrow> app_state \<Rightarrow> app_state"
where
  "VAD_start getUserMedia faults freq now s =
     (case getUserMedia of
        Inl e \<Rightarrow> VAD_start_catch e s
      | Inr st \<Rightarrow>
          (let s1 = s\<lparr>vad := (vad s)\<lparr>stream := Some st\<rparr>\<rparr>
           in case new_AudioContext faults of
                Some e \<Rightarrow> VAD_start_catch e s1
              | None \<Rightarrow>
                  (let s2 = s1\<lparr>vad := (vad s1)\<lparr>audioContext := Some AudioContext,
                                   analyser := Some \<lparr>fftSize = 256, smoothingTimeConstant = 0.8\<rparr>\<rparr>\<rparr>
                   in case createMediaStreamSource faults of
                        Some e \<Rightarrow> VAD_start_catch e s2
                      | None \<Rightarrow>
                          (case new_MediaRecorder faults of
                             Some e \<Rightarrow> VAD_start_catch e s2
                           | None \<Rightarrow>
                               (let s3 = s2\<lparr>vad := (vad s2)\<lparr>vad_mediaRecorder := Some Inactive\<rparr>\<rparr>
                                in case monitorVolume freq (recorder_start faults) now s3 of
                                     (Some e, s4) \<Rightarrow> VAD_start_catch e s4
                                   | (None, s4) \<Rightarrow>
                                       log (Text ''Hands-free mode enabled'') LogSuccess
                                         (s4\<lparr>elements := (elements s4)\<lparr>
                                               volumeMeter_hidden := False,
                                               recordBtn_disabled := True,
                                               recordBtn_text := HandsFreeActive\<rparr>\<rparr>))))))"

text \<open>
  \<open>VAD.stop\<close>. Stopping a recording recorder makes it inactive (its \<open>stop\<close> event comes
  later); the recorder itself stays in \<open>state.vad.mediaRecorder\<close>.
\<close>

definition VAD_stop :: "app_state \<Rightarrow> app_state" where
  "VAD_stop s =
     (let s1 = (case animationFrame (vad s) of
                  Some h \<Rightarrow>
                    if h \<noteq> 0
                    then (cancelAnimationFrame h s)\<lparr>vad := (vad s)\<lparr>animationFrame := None\<rparr>\<rparr>
                    else s
                | None \<Rightarrow> s);
          s2 = (if vad_mediaRecorder (vad s1) = Some Recording
                then s1\<lparr>vad := (vad s1)\<lparr>vad_mediaRecorder := Some Inactive\<rparr>\<rparr> else s1)
      in s2\<lparr>vad := (vad s2)\<lparr>isSpeaking := False, silenceStart := None, speechStart := None,
                              audioChunks := [], audioContext := None, analyser := None,
                              stream := None\<rparr>,
            elements := (elements s2)\<lparr>volumeMeter_hidden := True, recordBtn_disabled := False,
                                        recordBtn_text := StartRecording\<rparr>\<rparr>)"

definition VAD_reset :: "app_state \<Rightarrow> app_state" where
  "VAD_reset s =
     s\<lparr>vad := (vad s)\<lparr>isSpeaking := False, silenceStart := None, speechStart := None,
                        audioChunks := [], isProcessing := False\<rparr>,
       elements := (elements s)\<lparr>volumeStatus_text := Listening,
                                  volumeStatus_class := ''volume-status''\<rparr>\<rparr>"

text \<open>\<open>ondataavailable\<close> of the hands-free recorder.\<close>

definition VAD_ondataavailable :: "blob \<Rightarrow> app_state \<Rightarrow> app_state" where
  "VAD_ondataavailable d s =
     (if length d > 0 then s\<lparr>vad := (vad s)\<lparr>audioChunks := audioChunks (vad s) @ [d]\<rparr>\<rparr> else s)"

section \<open>WebSocketManager\<close>

text \<open>\<open>state.websocket?.readyState\<close>\<close>

definition websocket_readyState :: "app_state \<Rightarrow> ready_state option" where
  "websocket_readyState s =
     (case websocket s of
        None \<Rightarrow> None
      | Some i \<Rightarrow> if i < length (sockets (env s))
                  then Some (readyState (sockets (env s) ! i)) else None)"

text \<open>
  \<open>connect()\<close>: the promise it returns, and the state after its executor ran. Unless the
  held socket is open, a new \<open>WebSocket\<close> is constructed and takes its place.
\<close>

definition connect :: "app_state \<Rightarrow> promise_id \<times> app_state" where
  "connect s =
     (let (p, s1) = new_promise s
      in if websocket_readyState s1 = Some OPEN
         then (p, settle p (Resolved (VSocket (websocket s1))) s1)
         else (p, s1\<lparr>websocket := Some (length (sockets (env s1))),
                     env := (env s1)\<lparr>sockets := sockets (env s1) @
                              [\<lparr>readyState = CONNECTING, opener = p\<rparr>]\<rparr>\<rparr>))"

text \<open>The browser changes a socket's ready state before it delivers the event.\<close>

definition set_readyState :: "socket_id \<Rightarrow> ready_state \<Rightarrow> app_state \<Rightarrow> app_state" where
  "set_readyState i r s =
     (if i < length (sockets (env s))
      then s\<lparr>env := (env s)\<lparr>sockets :=
               (sockets (env s))[i := (sockets (env s) ! i)\<lparr>readyState := r\<rparr>]\<rparr>\<rparr>
      else s)"

definition websocket_onopen :: "socket_id \<Rightarrow> app_state \<Rightarrow> app_state" where
  "websocket_onopen i s =
     (if i < length (sockets (env s))
      then (let s1 = set_readyState i OPEN s
            in settle (opener (sockets (env s1) ! i)) (Resolved (VSocket (websocket s1))) s1)
      else s)"

definition websocket_onerror :: "socket_id \<Rightarrow> app_state \<Rightarrow> app_state" where
  "websocket_onerror i s =
     (if i < length (sockets (env s))
      then settle (opener (sockets (env s) ! i))
             (Rejected (JsError ''Error'' ''WebSocket connection failed''))
             (log (Text ''Connection error'') LogError s)
      else s)"

definition websocket_onclose :: "socket_id \<Rightarrow> app_state \<Rightarrow> app_state" where
  "websocket_onclose i s =
     (if i < length (sockets (env s))
      then (set_readyState i CLOSED s)\<lparr>websocket := None\<rparr>
      else s)"

definition recognized_types :: "string list" where
  "recognized_types =
     [''stt_start'', ''stt_segment'', ''stt_done'', ''llm_start'', ''llm_token'', ''llm_done'',
      ''tts_start'', ''tts_chunk'', ''tts_done'', ''pipeline_done'', ''error'']"

text \<open>
  The part the two terminal events share after their log line: status, record button,
  and the call of the pending \<open>resolve\<close> with \<open>outcome\<close>.
\<close>

definition settle_pipeline :: "bool \<Rightarrow> app_state \<Rightarrow> app_state" where
  "settle_pipeline outcome s =
     (let s1 = setStatus READY ''Ready'' s;
          s2 = (if \<not> isEnabled (vad s1)
                then s1\<lparr>elements := (elements s1)\<lparr>recordBtn_disabled := False\<rparr>\<rparr> else s1)
      in case pipelineResolve s2 of
           Some p \<Rightarrow> (settle p (Resolved (VBool outcome)) s2)\<lparr>pipelineResolve := None\<rparr>
         | None \<Rightarrow> s2)"

text \<open>
  \<open>handleMessage(data)\<close> at time \<open>now\<close>: the error it throws, if any, and the state it
  leaves. The \<open>switch\<close> has no default branch.
\<close>

definition handleMessage :: "message \<Rightarrow> int \<Rightarrow> app_state \<Rightarrow> js_error option \<times> app_state" where
  "handleMessage data now s =
     (if msg_type data = Some ''stt_start'' then
        (None, setStatus PROCESSING ''Transcribing...''
                 (startStreaming_transcript
                    (s\<lparr>elements := (elements s)\<lparr>transcript_text := []\<rparr>\<rparr>)))
      else if msg_type data = Some ''stt_segment'' then
        (None, s\<lparr>elements := (elements s)\<lparr>transcript_text :=
                   transcript_text (elements s) @ js_string (msg_content data) @ '' ''\<rparr>\<rparr>)
      else if msg_type data = Some ''stt_done'' then
        (let s1 = stopStreaming_transcript s
         in case msg_full_transcript data of
              None \<Rightarrow>
                (Some (JsError ''TypeError'' ''Cannot read properties of undefined''),
                 s1\<lparr>elements := (elements s1)\<lparr>transcript_text := []\<rparr>\<rparr>)
            | Some t \<Rightarrow>
                (None, log (Text (''Transcribed: '' @ take 40 t @ ''...'')) LogSuccess
                         (s1\<lparr>elements := (elements s1)\<lparr>transcript_text := t\<rparr>\<rparr>)))
      else if msg_type data = Some ''llm_start'' then
        (None, setStatus PROCESSING ''Generating...''
                 (startStreaming_response
                    (s\<lparr>elements := (elements s)\<lparr>response_text := []\<rparr>\<rparr>)))
      else if msg_type data = Some ''llm_token'' then
        (None, s\<lparr>elements := (elements s)\<lparr>response_text :=
                   response_text (elements s) @ js_string (msg_content data)\<rparr>\<rparr>)
      else if msg_type data = Some ''llm_done'' then
        (None, stopStreaming_response s)
      else if msg_type data = Some ''tts_start'' then
        (None, setStatus PROCESSING ''Speaking...'' (AudioQueue_reset s))
      else if msg_type data = Some ''tts_chunk'' then
        AudioQueue_add (msg_audio data) (msg_index data) (msg_sentence data) s
      else if msg_type data = Some ''tts_done'' then
        (None, s)
      else if msg_type data = Some ''pipeline_done'' then
        (let s1 = stopStreaming_response (stopStreaming_transcript s);
             elapsed = since now (processingStartTime s1);
             s2 = log (CompleteAfter elapsed) LogSuccess
                    (s1\<lparr>elements := (elements s1)\<lparr>processingTime := elapsed\<rparr>\<rparr>)
         in (None, settle_pipeline True s2))
      else if msg_type data = Some ''error'' then
        (let s1 = stopStreaming_response (stopStreaming_transcript s);
             s2 = log (Text (''Server error: '' @ js_string (msg_message data))) LogError s1
         in (None, settle_pipeline False s2))
      else (None, s))"

section \<open>Pipeline\<close>

text \<open>
  \<open>Pipeline.run(audioBlob)\<close> up to its first \<open>await\<close>: the promise it returns, the
  promise of \<open>connect()\<close> it waits for, and the state.
\<close>

definition Pipeline_run :: "blob \<Rightarrow> app_state \<Rightarrow> promise_id \<times> promise_id \<times> app_state" where
  "Pipeline_run audioBlob s =
     (let (p, s1) = new_promise s;
          (pc, s2) = connect s1
      in (p, pc, s2))"

definition Pipeline_run_catch :: "promise_id \<Rightarrow> js_error \<Rightarrow> app_state \<Rightarrow> app_state" where
  "Pipeline_run_catch p e s =
     settle p (Rejected e) (log (Text (''Pipeline error: '' @ message e)) LogError s)"

text \<open>
  The segment after \<open>await WebSocketManager.connect()\<close>, run once the promise \<open>pc\<close> is
  settled; it ends where \<open>blobToBase64\<close> starts reading.
\<close>

definition Pipeline_run_connected ::
  "promise_id \<Rightarrow> promise_id \<Rightarrow> int \<Rightarrow> app_state \<Rightarrow> app_state"
where
  "Pipeline_run_connected p pc now s =
     (case promise_state s pc of
        None \<Rightarrow> s
      | Some (Rejected e) \<Rightarrow> Pipeline_run_catch p e s
      | Some (Resolved v) \<Rightarrow> s\<lparr>pipelineResolve := Some p, processingStartTime := Some now\<rparr>)"

text \<open>
  \<open>websocket.send\<close>: without a socket the property access throws; a connecting socket
  throws; a closing or closed one drops the data silently.
\<close>

definition websocket_send :: "audio_request \<Rightarrow> app_state \<Rightarrow> js_error + app_state" where
  "websocket_send r s =
     (case websocket s of
        None \<Rightarrow> Inl (JsError ''TypeError'' ''Cannot read properties of null'')
      | Some i \<Rightarrow>
          (case websocket_readyState s of
             Some OPEN \<Rightarrow> Inr (s\<lparr>env := (env s)\<lparr>sent := sent (env s) @ [(i, r)]\<rparr>\<rparr>)
           | Some CONNECTING \<Rightarrow> Inl (JsError ''InvalidStateError'' ''Still in CONNECTING state'')
           | _ \<Rightarrow> Inr s))"

text \<open>
  The segment after \<open>await blobToBase64(audioBlob)\<close>; \<open>read_error\<close> is the error of the
  file reader, if it failed.
\<close>

definition Pipeline_run_encoded ::
  "promise_id \<Rightarrow> blob \<Rightarrow> js_error option \<Rightarrow> app_state \<Rightarrow> app_state"
where
  "Pipeline_run_encoded p audioBlob read_error s =
     (case read_error of
        Some e \<Rightarrow> Pipeline_run_catch p e s
      | None \<Rightarrow>
          (let s1 = log (SendingAudio (length audioBlob)) LogInfo s
           in case websocket_send \<lparr>req_data = Base64 audioBlob,
                                    req_model = modelSelect_value (elements s1)\<rparr> s1 of
                Inl e \<Rightarrow> Pipeline_run_catch p e s1
              | Inr s2 \<Rightarrow> s2))"

section \<open>Hands-free and manual capture\<close>

text \<open>
  \<open>VAD.onRecordingStop\<close> up to \<open>await Pipeline.run(audioBlob)\<close>. The first component is
  the promise of the pipeline run it started, \<open>None\<close> when it returned without starting one.
\<close>

definition VAD_onRecordingStop :: "app_state \<Rightarrow> promise_id option \<times> app_state" where
  "VAD_onRecordingStop s =
     (if audioChunks (vad s) = [] \<or> isProcessing (vad s)
      then (None, s\<lparr>vad := (vad s)\<lparr>audioChunks := []\<rparr>\<rparr>)
      else
        (let audioBlob = concat (audioChunks (vad s));
             s1 = s\<lparr>vad := (vad s)\<lparr>audioChunks := [], isProcessing := True\<rparr>,
                    elements := (elements s)\<lparr>volumeStatus_text := ProcessingText,
                                       volumeStatus_class := ''volume-status processing''\<rparr>\<rparr>
         in if length audioBlob < minAudioSize CONFIG_VAD
            then (let s2 = log (Text ''Audio too short, skipping...'') LogInfo s1
                  in (None, s2\<lparr>vad := (vad s2)\<lparr>isProcessing := False\<rparr>\<rparr>))
            else (let (p, pc, s2) = Pipeline_run audioBlob s1 in (Some p, s2))))"

text \<open>The rest of \<open>VAD.onRecordingStop\<close>, run once the pipeline promise \<open>p\<close> is settled.\<close>

definition VAD_onRecordingStop_settled :: "promise_id \<Rightarrow> app_state \<Rightarrow> app_state" where
  "VAD_onRecordingStop_settled p s =
     (case promise_state s p of
        None \<Rightarrow> s
      | Some (Resolved v) \<Rightarrow>
          (let s1 = (if isEnabled (vad s)
                     then setStatus READY ''Ready''
                            (s\<lparr>elements := (elements s)\<lparr>volumeStatus_text := Listening,
                                  volumeStatus_class := ''volume-status''\<rparr>\<rparr>)
                     else s)
           in s1\<lparr>vad := (vad s1)\<lparr>isProcessing := False\<rparr>\<rparr>)
      | Some (Rejected e) \<Rightarrow>
          (let s1 = log (Text (''Pipeline error: '' @ message e)) LogError s;
               s2 = setStatus READY ''Ready''
                      (s1\<lparr>elements := (elements s1)\<lparr>response_text := ''Error: '' @ message e\<rparr>\<rparr>);
               s3 = (if isEnabled (vad s2)
                     then s2\<lparr>elements := (elements s2)\<lparr>volumeStatus_text := Listening,
                                  volumeStatus_class := ''volume-status''\<rparr>\<rparr>
                     else s2)
           in s3\<lparr>vad := (vad s3)\<lparr>isProcessing := False\<rparr>\<rparr>))"

text \<open>\<open>Recording.process\<close> up to its \<open>await\<close>, and its \<open>catch\<close>.\<close>

definition Recording_process :: "blob \<Rightarrow> app_state \<Rightarrow> promise_id \<times> promise_id \<times> app_state" where
  "Recording_process audioBlob s = Pipeline_run audioBlob s"

definition Recording_process_settled :: "promise_id \<Rightarrow> app_state \<Rightarrow> app_state" where
  "Recording_process_settled p s =
     (case promise_state s p of
        Some (Rejected e) \<Rightarrow>
          (let s1 = log (Text (''Error: '' @ message e)) LogError s;
               s2 = setStatus READY ''Ready''
                      (s1\<lparr>elements := (elements s1)\<lparr>response_text := ''Error: '' @ message e\<rparr>\<rparr>)
           in s2\<lparr>elements := (elements s2)\<lparr>recordBtn_disabled := False\<rparr>\<rparr>)
      | _ \<Rightarrow> s)"

text \<open>\<open>ondataavailable\<close> and \<open>onstop\<close> of the manual recorder (set in \<open>Recording.init\<close>).\<close>

definition Recording_ondataavailable :: "blob \<Rightarrow> app_state \<Rightarrow> app_state" where
  "Recording_ondataavailable d s =
     (if length d > 0
      then s\<lparr>recording := (recording s)\<lparr>rec_chunks := rec_chunks (recording s) @ [d]\<rparr>\<rparr>
      else s)"

definition Recording_onstop :: "app_state \<Rightarrow> promise_id \<times> promise_id \<times> app_state" where
  "Recording_onstop s =
     Recording_process (concat (rec_chunks (recording s)))
       (s\<lparr>recording := (recording s)\<lparr>rec_chunks := []\<rparr>\<rparr>)"

section \<open>Clear and reset\<close>

definition clearAll :: "app_state \<Rightarrow> app_state" where
  "clearAll s =
     (let s1 = AudioQueue_reset (stopStreaming_response (stopStreaming_transcript s));
          s2 = s1\<lparr>audioPlayer := (audioPlayer s1)\<lparr>outputting := False\<rparr>\<rparr>;
          s3 = (if isEnabled (vad s2) then VAD_reset s2 else s2)
      in s3\<lparr>elements := (elements s3)\<lparr>
              transcript_text := ''Your transcribed speech will appear here...'',
              response_text := ''The AI response will appear here...'',
              recordingDuration := 0,
              processingTime := 0,
              logs := [(Text ''Ready'', LogInfo)]\<rparr>,
            audioPlayer := (audioPlayer s3)\<lparr>player_hidden := True, player_src := None\<rparr>\<rparr>)"

section \<open>Start of the page\<close>

text \<open>
  The \<open>state\<close> object as the source initialises it. The page's markup is not part of the
  script; the elements start as \<open>clearAll\<close> leaves them, with the badges, the player and
  the volume meter hidden.
\<close>

definition initial_elements :: elements where
  "initial_elements =
     \<lparr>transcript_text = ''Your transcribed speech will appear here...'',
      transcript_streaming = False,
      response_text = ''The AI response will appear here...'',
      response_streaming = False,
      sttBadge_hidden = True, llmBadge_hidden = True, speakingBadge_hidden = True,
      statusIndicator = READY, statusText = ''Ready'',
      recordingDuration = 0, processingTime = 0,
      logs = [(Text ''Ready'', LogInfo)],
      recordBtn_disabled = False, recordBtn_text = StartRecording,
      handsFreeToggle_checked = False,
      volumeMeter_hidden = True, volumeBar_width = 0,
      volumeStatus_text = Listening, volumeStatus_class = ''volume-status'',
      modelSelect_value = ''llama3.2:1b''\<rparr>"

definition initial_state :: app_state where
  "initial_state =
     \<lparr>websocket = None, pipelineResolve = None, processingStartTime = None,
      recording = \<lparr>rec_mediaRecorder = None, rec_chunks = [], rec_isActive = False,
                   rec_startTime = None, rec_timer = None\<rparr>,
      audio = \<lparr>queue = [], isPlaying = False, currentIndex = 0\<rparr>,
      vad = \<lparr>isEnabled = False, isProcessing = False, isSpeaking = False,
             silenceStart = None, speechStart = None, stream = None,
             vad_mediaRecorder = None, audioChunks = [], audioContext = None,
             analyser = None, animationFrame = None\<rparr>,
      elements = initial_elements,
      audioPlayer = \<lparr>player_src = None, player_hidden = True, outputting = False,
                     play_attempts = [], interrupted = []\<rparr>,
      env = \<lparr>sockets = [], sent = [], promise_counter = 0, settle_calls = [],
             url_counter = 0, raf_counter = 0, raf_pending = []\<rparr>\<rparr>"

text \<open>\<open>init()\<close>: the log line and the pre-connection.\<close>

definition init :: "app_state \<Rightarrow> app_state" where
  "init s = snd (connect (log (Text ''Voice AI Chat ready'') LogSuccess s))"

text \<open>The page once the pre-connection (socket 0) has opened.\<close>

definition connected_state :: app_state where
  "connected_state = websocket_onopen 0 (init initial_state)"

text \<open>The \<open>change\<close> listener of the hands-free toggle, up to \<open>getUserMedia\<close>.\<close>

definition handsFreeToggle_change :: "bool \<Rightarrow> app_state \<Rightarrow> app_state" where
  "handsFreeToggle_change checked s =
     (let s1 = s\<lparr>vad := (vad s)\<lparr>isEnabled := checked\<rparr>,
                 elements := (elements s)\<lparr>handsFreeToggle_checked := checked\<rparr>\<rparr>
      in if isEnabled (vad s1) then s1 else VAD_stop s1)"

section \<open>Runs of the playback queue\<close>

text \<open>
  What can happen to the queue when nobody resets it: a chunk arrives, the chunk being
  output ends, or the device rejects it.
\<close>

datatype playback_event =
  Enqueue blob "int option" "string option"
| ChunkEnded
| ChunkRejected js_error

fun playback_step :: "playback_event \<Rightarrow> app_state \<Rightarrow> app_state" where
  "playback_step (Enqueue b i t) s = snd (AudioQueue_add (Some (Base64 b)) i t s)"
| "playback_step ChunkEnded s = audioPlayer_ended s"
| "playback_step (ChunkRejected e) s = audioPlayer_play_rejected e s"

fun playback_run :: "playback_event list \<Rightarrow> app_state \<Rightarrow> app_state" where
  "playback_run [] s = s"
| "playback_run (e # es) s = playback_run es (playback_step e s)"

text \<open>The player reports an end or a rejection only for a chunk it is outputting.\<close>

fun playback_possible :: "playback_event list \<Rightarrow> app_state \<Rightarrow> bool" where
  "playback_possible [] s = True"
| "playback_possible (Enqueue b i t # es) s = playback_possible es (playback_step (Enqueue b i t) s)"
| "playback_possible (e # es) s =
     (outputting (audioPlayer s) \<and> playback_possible es (playback_step e s))"

text \<open>The object URLs of the chunks a run enqueues, from URL counter \<open>n\<close> on, in order.\<close>

fun enqueued_urls :: "nat \<Rightarrow> playback_event list \<Rightarrow> url list" where
  "enqueued_urls n [] = []"
| "enqueued_urls n (Enqueue b i t # es) = ObjectURL n b # enqueued_urls (Suc n) es"
| "enqueued_urls n (e # es) = enqueued_urls n es"

fun completions :: "playback_event list \<Rightarrow> nat" where
  "completions [] = 0"
| "completions (Enqueue b i t # es) = completions es"
| "completions (e # es) = Suc (completions es)"

text \<open>Nothing queued, the flag down, the player silent.\<close>

definition queue_idle :: "app_state \<Rightarrow> bool" where
  "queue_idle s \<longleftrightarrow> queue (audio s) = [] \<and> \<not> isPlaying (audio s) \<and> \<not> outputting (audioPlayer s)"

section \<open>Uninterrupted runs and concrete situations\<close>

text \<open>
  \<open>Pipeline.run\<close> when no other event arrives between its segments and the file reader
  succeeds: it stops at the first \<open>await\<close> while the connection is still pending, takes
  the \<open>catch\<close> when the connection failed, and otherwise goes on to the \<open>send\<close>.
\<close>

definition Pipeline_run_uninterrupted :: "blob \<Rightarrow> int \<Rightarrow> app_state \<Rightarrow> promise_id \<times> app_state" where
  "Pipeline_run_uninterrupted audioBlob now s =
     (let (p, pc, s1) = Pipeline_run audioBlob s
      in case promise_state s1 pc of
           None \<Rightarrow> (p, s1)
         | Some (Rejected e) \<Rightarrow> (p, Pipeline_run_connected p pc now s1)
         | Some (Resolved v) \<Rightarrow>
             (p, Pipeline_run_encoded p audioBlob None (Pipeline_run_connected p pc now s1)))"

text \<open>The two events that end a request.\<close>

definition terminal_types :: "string list" where
  "terminal_types = [''pipeline_done'', ''error'']"

text \<open>Every promise that was settled had been created.\<close>

definition promises_created :: "app_state \<Rightarrow> bool" where
  "promises_created s \<longleftrightarrow> list_all (\<lambda>c. fst c < promise_counter (env s)) (settle_calls (env s))"

text \<open>
  The queue and the player agree: the flag is up exactly while a chunk is being output,
  and chunks wait only behind one that is.
\<close>

definition playback_inv :: "app_state \<Rightarrow> bool" where
  "playback_inv s \<longleftrightarrow>
     isPlaying (audio s) = outputting (audioPlayer s) \<and>
     (\<not> isPlaying (audio s) \<longrightarrow> queue (audio s) = [])"

definition active :: "app_state \<Rightarrow> nat" where
  "active s = (if outputting (audioPlayer s) then 1 else 0)"

text \<open>Messages and states used as concrete inputs.\<close>

definition bare_message :: "string \<Rightarrow> message" where
  "bare_message t =
     \<lparr>msg_type = Some t, msg_content = None, msg_full_transcript = None,
      msg_audio = None, msg_index = None, msg_sentence = None, msg_message = None\<rparr>"

definition pipeline_done_message :: message where
  "pipeline_done_message = bare_message ''pipeline_done''"

definition error_message :: message where
  "error_message = (bare_message ''error'')\<lparr>msg_message := Some ''model not found''\<rparr>"

definition stt_segment_message :: message where
  "stt_segment_message = (bare_message ''stt_segment'')\<lparr>msg_content := Some ''hello wor''\<rparr>"

definition stt_done_message :: message where
  "stt_done_message = (bare_message ''stt_done'')\<lparr>msg_full_transcript := Some ''hello world''\<rparr>"

text \<open>A first chunk is being output.\<close>

definition playing_state :: app_state where
  "playing_state =
     snd (AudioQueue_add (Some (Base64 [1, 2, 3])) (Some 0) (Some ''Hello'') connected_state)"

definition no_faults :: setup_faults where
  "no_faults = \<lparr>new_AudioContext = None, createMediaStreamSource = None,
     new_MediaRecorder = None, recorder_start = None\<rparr>"

definition recorder_fault :: setup_faults where
  "recorder_fault = \<lparr>new_AudioContext = None, createMediaStreamSource = None,
     new_MediaRecorder = Some (JsError ''ReferenceError'' ''MediaRecorder is not defined''),
     recorder_start = None\<rparr>"

text \<open>Hands-free mode switched on, the microphone granted, every constructor succeeding.\<close>

definition listening_state :: app_state where
  "listening_state =
     VAD_start (Inr (MediaStream 0)) no_faults (\<lambda>i. 0) 0 (handsFreeToggle_change True connected_state)"

text \<open>The same, but the \<open>MediaRecorder\<close> constructor throws.\<close>

definition failed_start_state :: app_state where
  "failed_start_state =
     VAD_start (Inr (MediaStream 0)) recorder_fault (\<lambda>i. 0) 0
       (handsFreeToggle_change True connected_state)"

text \<open>Two \<open>connect()\<close> calls in a row on the fresh page.\<close>

definition two_connects :: app_state where
  "two_connects = snd (connect (snd (connect initial_state)))"

text \<open>A request on the open connection, and a second one while the first is pending.\<close>

definition first_request :: "promise_id \<times> app_state" where
  "first_request = Pipeline_run_uninterrupted [1, 2, 3] 100 connected_state"

definition second_request :: "promise_id \<times> app_state" where
  "second_request = Pipeline_run_uninterrupted [4, 5, 6] 200 (snd first_request)"

text \<open>The second request segment by segment: the call, after the connection, after the read.\<close>

definition second_call :: "promise_id \<times> promise_id \<times> app_state" where
  "second_call = Pipeline_run [4, 5, 6] (snd first_request)"

definition second_connected :: app_state where
  "second_connected =
     Pipeline_run_connected (fst second_call) (fst (snd second_call)) 200 (snd (snd second_call))"

definition second_sent :: app_state where
  "second_sent = Pipeline_run_encoded (fst second_call) [4, 5, 6] None second_connected"

text \<open>A manual recording of three bytes, stopped, with its pipeline run carried to the send.\<close>

definition manual_short_utterance :: app_state where
  "manual_short_utterance =
     (let (p, pc, s1) = Recording_onstop (Recording_ondataavailable [1, 2, 3] connected_state)
      in Pipeline_run_encoded p [1, 2, 3] None (Pipeline_run_connected p pc 100 s1))"

text \<open>A hands-free recording of three bytes, about to be stopped.\<close>

definition hands_free_short_utterance :: app_state where
  "hands_free_short_utterance = VAD_ondataavailable [1, 2, 3] listening_state"

definition three_chunks :: "playback_event list" where
  "three_chunks =
     [Enqueue [1] (Some 0) (Some ''One.''), Enqueue [2] (Some 1) (Some ''Two.''), ChunkEnded,
      Enqueue [3] (Some 2) (Some ''Three.''),
      ChunkRejected (JsError ''NotSupportedError'' ''no supported source''), ChunkEnded]"

section \<open>Properties\<close>

lemmas util_defs = log_def setStatus_def startStreaming_transcript_def stopStreaming_transcript_def
  startStreaming_response_def stopStreaming_response_def settle_def

subsection \<open>Inbound dispatch\<close>

text \<open>
  Claim C5. A message whose type tag is none of the eleven recognized kinds (or is absent)
  leaves the whole application state as it was, and \<open>handleMessage\<close> throws nothing.
\<close>

theorem unrecognized_type_ignored:
  assumes "msg_type data \<notin> Some ` set recognized_types"
  shows "handleMessage data now s = (None, s)"
  using assms by (simp add: handleMessage_def recognized_types_def)

theorem unrecognized_type_ignored_witness:
  "msg_type (bare_message ''ping'') \<notin> Some ` set recognized_types \<and>
   handleMessage (bare_message ''ping'') 0 playing_state = (None, playing_state)"
proof -
  have h: "msg_type (bare_message ''ping'') \<notin> Some ` set recognized_types"
    by (simp add: recognized_types_def bare_message_def)
  show ?thesis using h unrecognized_type_ignored [OF h, of 0 playing_state] by simp
qed

text \<open>
  Claim C10. After an \<open>stt_done\<close> event that carries \<open>full_transcript\<close>, the transcript
  display is exactly that text, whatever the \<open>stt_segment\<close> events had put there, and
  nothing is thrown.
\<close>

theorem stt_done_replaces_transcript:
  assumes "msg_type data = Some ''stt_done''" and "msg_full_transcript data = Some t"
  shows "fst (handleMessage data now s) = None \<and>
         transcript_text (elements (snd (handleMessage data now s))) = t"
  using assms by (simp add: handleMessage_def util_defs)

theorem stt_done_replaces_transcript_witness:
  "msg_type stt_done_message = Some ''stt_done'' \<and>
   msg_full_transcript stt_done_message = Some ''hello world'' \<and>
   transcript_text (elements (snd (handleMessage stt_segment_message 1 connected_state))) =
     ''Your transcribed speech will appear here...hello wor '' \<and>
   fst (handleMessage stt_done_message 2 (snd (handleMessage stt_segment_message 1 connected_state)))
     = None \<and>
   transcript_text (elements (snd (handleMessage stt_done_message 2
     (snd (handleMessage stt_segment_message 1 connected_state))))) = ''hello world''"
proof -
  have a: "msg_type stt_done_message = Some ''stt_done''"
    and b: "msg_full_transcript stt_done_message = Some ''hello world''"
    by (simp_all add: stt_done_message_def bare_message_def)
  have c: "transcript_text (elements (snd (handleMessage stt_segment_message 1 connected_state))) =
     ''Your transcribed speech will appear here...hello wor ''"
    by code_simp
  show ?thesis
    using a b c
      stt_done_replaces_transcript [OF a b, of 2 "snd (handleMessage stt_segment_message 1 connected_state)"]
    by simp
qed

lemma settle_pipeline_pending:
  "pipelineResolve s = Some p \<Longrightarrow>
   pipelineResolve (settle_pipeline b s) = None \<and>
   settle_calls (env (settle_pipeline b s)) = settle_calls (env s) @ [(p, Resolved (VBool b))]"
  by (simp add: settle_pipeline_def util_defs Let_def)

lemma settle_pipeline_idle:
  "pipelineResolve s = None \<Longrightarrow>
   pipelineResolve (settle_pipeline b s) = None \<and>
   settle_calls (env (settle_pipeline b s)) = settle_calls (env s)"
  by (simp add: settle_pipeline_def util_defs Let_def)

lemma terminal_cases:
  "msg_type d \<in> Some ` set terminal_types \<Longrightarrow>
   msg_type d = Some ''pipeline_done'' \<or> msg_type d = Some ''error''"
  by (auto simp: terminal_types_def)

lemma handleMessage_pipeline_done:
  "msg_type d = Some ''pipeline_done'' \<Longrightarrow>
   handleMessage d now s =
     (None, settle_pipeline True
        (log (CompleteAfter (since now (processingStartTime s))) LogSuccess
          ((stopStreaming_response (stopStreaming_transcript s))\<lparr>elements :=
             (elements (stopStreaming_response (stopStreaming_transcript s)))\<lparr>processingTime :=
                since now (processingStartTime s)\<rparr>\<rparr>)))"
  by (simp add: handleMessage_def Let_def util_defs)

lemma handleMessage_error:
  "msg_type d = Some ''error'' \<Longrightarrow>
   handleMessage d now s =
     (None, settle_pipeline False
        (log (Text (''Server error: '' @ js_string (msg_message d))) LogError
           (stopStreaming_response (stopStreaming_transcript s))))"
  by (simp add: handleMessage_def Let_def)

lemma handleMessage_terminal_pending:
  assumes "msg_type d \<in> Some ` set terminal_types" and "pipelineResolve s = Some p"
  shows "fst (handleMessage d now s) = None \<and>
         pipelineResolve (snd (handleMessage d now s)) = None \<and>
         settle_calls (env (snd (handleMessage d now s))) =
           settle_calls (env s) @ [(p, Resolved (VBool (msg_type d = Some ''pipeline_done'')))]"
proof -
  from terminal_cases [OF assms(1)] show ?thesis
  proof
    assume t: "msg_type d = Some ''pipeline_done''"
    show ?thesis
      using assms(2) by (simp add: handleMessage_pipeline_done [OF t] t settle_pipeline_pending util_defs)
  next
    assume t: "msg_type d = Some ''error''"
    show ?thesis
      using assms(2) by (simp add: handleMessage_error [OF t] t settle_pipeline_pending util_defs)
  qed
qed

lemma handleMessage_terminal_idle:
  assumes "msg_type d \<in> Some ` set terminal_types" and "pipelineResolve s = None"
  shows "fst (handleMessage d now s) = None \<and>
         pipelineResolve (snd (handleMessage d now s)) = None \<and>
         settle_calls (env (snd (handleMessage d now s))) = settle_calls (env s)"
proof -
  from terminal_cases [OF assms(1)] show ?thesis
  proof
    assume t: "msg_type d = Some ''pipeline_done''"
    show ?thesis
      using assms(2) by (simp add: handleMessage_pipeline_done [OF t] settle_pipeline_idle util_defs)
  next
    assume t: "msg_type d = Some ''error''"
    show ?thesis
      using assms(2) by (simp add: handleMessage_error [OF t] settle_pipeline_idle util_defs)
  qed
qed

text \<open>
  Claim C4. With a request pending, two terminal events in a row (any mix of
  \<open>pipeline_done\<close> and \<open>error\<close>) call the pending \<open>resolve\<close> once: the first event
  settles the request and clears the handle, the second calls no resolving function and
  throws nothing.
\<close>

theorem duplicate_terminal_event_settles_once:
  assumes "pipelineResolve s = Some p"
    and "msg_type d1 \<in> Some ` set terminal_types"
    and "msg_type d2 \<in> Some ` set terminal_types"
    and "s1 = snd (handleMessage d1 t1 s)"
    and "s2 = snd (handleMessage d2 t2 s1)"
  shows "fst (handleMessage d1 t1 s) = None \<and> fst (handleMessage d2 t2 s1) = None \<and>
         settle_calls (env s1) =
           settle_calls (env s) @ [(p, Resolved (VBool (msg_type d1 = Some ''pipeline_done'')))] \<and>
         settle_calls (env s2) = settle_calls (env s1) \<and>
         times_settled s2 p = Suc (times_settled s p) \<and>
         pipelineResolve s1 = None \<and> pipelineResolve s2 = None"
proof -
  note first = handleMessage_terminal_pending [OF assms(2) assms(1), of t1]
  have idle: "pipelineResolve s1 = None" using first assms(4) by simp
  note second = handleMessage_terminal_idle [OF assms(3) idle, of t2]
  show ?thesis
    using first second assms(4,5) by (simp add: times_settled_def)
qed

theorem duplicate_terminal_event_settles_once_witness:
  "pipelineResolve (snd first_request) = Some 1 \<and>
   msg_type pipeline_done_message \<in> Some ` set terminal_types \<and>
   msg_type error_message \<in> Some ` set terminal_types \<and>
   times_settled (snd first_request) 1 = 0 \<and>
   times_settled (snd (handleMessage error_message 400
     (snd (handleMessage pipeline_done_message 300 (snd first_request))))) 1 = 1 \<and>
   fst (handleMessage error_message 400
     (snd (handleMessage pipeline_done_message 300 (snd first_request)))) = None"
proof -
  have a: "pipelineResolve (snd first_request) = Some 1" by code_simp
  have b: "msg_type pipeline_done_message \<in> Some ` set terminal_types"
    by (simp add: pipeline_done_message_def bare_message_def terminal_types_def)
  have c: "msg_type error_message \<in> Some ` set terminal_types"
    by (simp add: error_message_def bare_message_def terminal_types_def)
  have d: "times_settled (snd first_request) 1 = 0" by code_simp
  show ?thesis
    using a b c d duplicate_terminal_event_settles_once [OF a b c refl refl, of 300 400]
    by simp
qed

subsection \<open>Playback queue\<close>

text \<open>
  Claim C7, as amended. \<open>reset()\<close> empties the queue, lowers the playing flag, sets the
  index to 0 and returns normally in every state; it does not touch the audio element,
  so a chunk being output goes on, and when that chunk ends no further chunk is played
  and the flag stays down.
\<close>

theorem reset_clears_queue_not_player:
  "queue (audio (AudioQueue_reset s)) = [] \<and>
   \<not> isPlaying (audio (AudioQueue_reset s)) \<and>
   currentIndex (audio (AudioQueue_reset s)) = 0 \<and>
   audioPlayer (AudioQueue_reset s) = audioPlayer s \<and>
   play_attempts (audioPlayer (audioPlayer_ended (AudioQueue_reset s))) = play_attempts (audioPlayer s) \<and>
   \<not> isPlaying (audio (audioPlayer_ended (AudioQueue_reset s)))"
  by (simp add: AudioQueue_reset_def audioPlayer_ended_def playNext_def util_defs Let_def)

text \<open>
  Claim C7 as stated fails: with the first chunk being output, \<open>reset()\<close> leaves the
  player outputting that chunk.
\<close>

theorem reset_does_not_halt_player:
  "outputting (audioPlayer playing_state) \<and>
   isPlaying (audio playing_state) \<and>
   outputting (audioPlayer (AudioQueue_reset playing_state)) \<and>
   player_src (audioPlayer (AudioQueue_reset playing_state)) = Some (ObjectURL 0 [1, 2, 3])"
  by code_simp

lemma playNext_silent:
  assumes "\<not> outputting (audioPlayer s)"
  shows "playback_inv (playNext s) \<and>
         play_attempts (audioPlayer (playNext s)) @ map item_url (queue (audio (playNext s))) =
           play_attempts (audioPlayer s) @ map item_url (queue (audio s)) \<and>
         interrupted (audioPlayer (playNext s)) = interrupted (audioPlayer s) \<and>
         env (playNext s) = env s \<and>
         length (play_attempts (audioPlayer (playNext s))) =
           length (play_attempts (audioPlayer s)) + active (playNext s)"
  using assms
  by (simp add: playNext_def playback_inv_def active_def player_load_and_play_def util_defs Let_def
      split: list.split option.split)

lemma enqueue_step:
  assumes "playback_inv s"
  shows "playback_inv (playback_step (Enqueue b i t) s) \<and>
         play_attempts (audioPlayer (playback_step (Enqueue b i t) s)) @
             map item_url (queue (audio (playback_step (Enqueue b i t) s))) =
           play_attempts (audioPlayer s) @ map item_url (queue (audio s)) @
             [ObjectURL (url_counter (env s)) b] \<and>
         interrupted (audioPlayer (playback_step (Enqueue b i t) s)) = interrupted (audioPlayer s) \<and>
         url_counter (env (playback_step (Enqueue b i t) s)) = Suc (url_counter (env s)) \<and>
         length (play_attempts (audioPlayer (playback_step (Enqueue b i t) s))) + active s =
           length (play_attempts (audioPlayer s)) + active (playback_step (Enqueue b i t) s)"
proof (cases "isPlaying (audio s)")
  case True
  with assms show ?thesis
    by (simp add: AudioQueue_add_def base64ToBlob_def createObjectURL_def playback_inv_def
        active_def Let_def)
next
  case False
  with assms have q: "queue (audio s) = []" and o: "\<not> outputting (audioPlayer s)"
    by (simp_all add: playback_inv_def)
  define s2 where "s2 = s\<lparr>env := (env s)\<lparr>url_counter := Suc (url_counter (env s))\<rparr>,
               audio := (audio s)\<lparr>queue := [\<lparr>item_url = ObjectURL (url_counter (env s)) b,
                        item_index = i, item_sentence = t\<rparr>]\<rparr>\<rparr>"
  have step: "playback_step (Enqueue b i t) s = playNext s2"
    using False q
    by (simp add: s2_def AudioQueue_add_def base64ToBlob_def createObjectURL_def Let_def)
  have o2: "\<not> outputting (audioPlayer s2)" using o by (simp add: s2_def)
  have f: "play_attempts (audioPlayer s2) = play_attempts (audioPlayer s)"
      "map item_url (queue (audio s2)) = [ObjectURL (url_counter (env s)) b]"
      "interrupted (audioPlayer s2) = interrupted (audioPlayer s)"
      "url_counter (env s2) = Suc (url_counter (env s))"
    by (simp_all add: s2_def)
  have a: "active s = 0" using o by (simp add: active_def)
  show ?thesis
    unfolding step using playNext_silent [OF o2] by (simp add: f a q)
qed

lemma completion_step:
  assumes "playback_inv s" and "outputting (audioPlayer s)"
    and "e = ChunkEnded \<or> e = ChunkRejected err"
  shows "playback_inv (playback_step e s) \<and>
         play_attempts (audioPlayer (playback_step e s)) @
             map item_url (queue (audio (playback_step e s))) =
           play_attempts (audioPlayer s) @ map item_url (queue (audio s)) \<and>
         interrupted (audioPlayer (playback_step e s)) = interrupted (audioPlayer s) \<and>
         url_counter (env (playback_step e s)) = url_counter (env s) \<and>
         length (play_attempts (audioPlayer (playback_step e s))) + active s =
           Suc (length (play_attempts (audioPlayer s))) + active (playback_step e s)"
proof -
  from assms(3) show ?thesis
  proof
    assume e: "e = ChunkEnded"
    let ?s0 = "s\<lparr>audioPlayer := (audioPlayer s)\<lparr>outputting := False\<rparr>\<rparr>"
    have o: "\<not> outputting (audioPlayer ?s0)" by simp
    show ?thesis
      using playNext_silent [OF o] assms(2) by (simp add: e audioPlayer_ended_def active_def)
  next
    assume e: "e = ChunkRejected err"
    let ?s0 = "log (Text (''Audio play error: '' @ message err)) LogError
                 (s\<lparr>audioPlayer := (audioPlayer s)\<lparr>outputting := False\<rparr>\<rparr>)"
    have o: "\<not> outputting (audioPlayer ?s0)" by (simp add: util_defs)
    show ?thesis
      using playNext_silent [OF o] assms(2)
      by (simp add: e audioPlayer_play_rejected_def active_def util_defs)
  qed
qed

lemma playback_run_invariant:
  assumes "playback_inv s" and "playback_possible evs s"
  shows "playback_inv (playback_run evs s) \<and>
         play_attempts (audioPlayer (playback_run evs s)) @
             map item_url (queue (audio (playback_run evs s))) =
           play_attempts (audioPlayer s) @ map item_url (queue (audio s)) @
             enqueued_urls (url_counter (env s)) evs \<and>
         interrupted (audioPlayer (playback_run evs s)) = interrupted (audioPlayer s) \<and>
         length (play_attempts (audioPlayer (playback_run evs s))) + active s =
           length (play_attempts (audioPlayer s)) + completions evs + active (playback_run evs s)"
  using assms
proof (induction evs arbitrary: s)
  case Nil
  then show ?case by simp
next
  case (Cons e evs)
  show ?case
  proof (cases e)
    case (Enqueue b i t)
    note st = enqueue_step [OF Cons.prems(1), of b i t]
    have p: "playback_possible evs (playback_step (Enqueue b i t) s)"
      using Cons.prems(2) Enqueue by simp
    from st have inv': "playback_inv (playback_step (Enqueue b i t) s)" by simp
    note ih = Cons.IH [OF inv' p]
    show ?thesis using ih st by (simp add: Enqueue)
  next
    case ChunkEnded
    have out: "outputting (audioPlayer s)" using Cons.prems(2) ChunkEnded by simp
    note st = completion_step [OF Cons.prems(1) out, of ChunkEnded undefined]
    have p: "playback_possible evs (playback_step ChunkEnded s)"
      using Cons.prems(2) ChunkEnded by simp
    from st have inv': "playback_inv (playback_step ChunkEnded s)" by simp
    note ih = Cons.IH [OF inv' p]
    show ?thesis using ih st by (simp add: ChunkEnded)
  next
    case (ChunkRejected err)
    have out: "outputting (audioPlayer s)" using Cons.prems(2) ChunkRejected by simp
    note st = completion_step [OF Cons.prems(1) out, of "ChunkRejected err" err]
    have p: "playback_possible evs (playback_step (ChunkRejected err) s)"
      using Cons.prems(2) ChunkRejected by simp
    from st have inv': "playback_inv (playback_step (ChunkRejected err) s)" by simp
    note ih = Cons.IH [OF inv' p]
    show ?thesis using ih st by (simp add: ChunkRejected)
  qed
qed

text \<open>
  Claim C6. From an idle queue, along any run of arrivals, ends and rejections without a
  reset: no chunk is cut off by another; the chunks played so far followed by those still
  queued are the chunks enqueued, in their order; once as many chunks have completed as
  were enqueued, every one of them was attempted exactly once, in order, and the queue is
  idle again. A chunk enqueued on the idle queue is played at once.
\<close>

theorem playback_queue_sequential_fifo:
  assumes "queue_idle s" and "playback_possible evs s"
  shows "interrupted (audioPlayer (playback_run evs s)) = interrupted (audioPlayer s) \<and>
         play_attempts (audioPlayer (playback_run evs s)) @
             map item_url (queue (audio (playback_run evs s))) =
           play_attempts (audioPlayer s) @ enqueued_urls (url_counter (env s)) evs \<and>
         (completions evs = length (enqueued_urls (url_counter (env s)) evs) \<longrightarrow>
            play_attempts (audioPlayer (playback_run evs s)) =
              play_attempts (audioPlayer s) @ enqueued_urls (url_counter (env s)) evs \<and>
            queue_idle (playback_run evs s)) \<and>
         play_attempts (audioPlayer (snd (AudioQueue_add (Some (Base64 b)) i t s))) =
           play_attempts (audioPlayer s) @ [ObjectURL (url_counter (env s)) b] \<and>
         isPlaying (audio (snd (AudioQueue_add (Some (Base64 b)) i t s)))"
proof -
  have inv: "playback_inv s" and q: "queue (audio s) = []" and idle: "active s = 0"
    using assms(1) by (simp_all add: queue_idle_def playback_inv_def active_def)
  note run = playback_run_invariant [OF inv assms(2)]
  let ?s' = "playback_run evs s"
  have fifo: "play_attempts (audioPlayer ?s') @ map item_url (queue (audio ?s')) =
           play_attempts (audioPlayer s) @ enqueued_urls (url_counter (env s)) evs"
    using run q by simp
  have count: "length (play_attempts (audioPlayer ?s')) =
           length (play_attempts (audioPlayer s)) + completions evs + active ?s'"
    using run idle by simp
  have finished: "play_attempts (audioPlayer ?s') =
              play_attempts (audioPlayer s) @ enqueued_urls (url_counter (env s)) evs \<and>
            queue_idle ?s'"
    if all: "completions evs = length (enqueued_urls (url_counter (env s)) evs)"
  proof -
    have "length (play_attempts (audioPlayer ?s')) + length (queue (audio ?s')) =
          length (play_attempts (audioPlayer s)) + completions evs"
      using arg_cong [OF fifo, of length] all by simp
    with count have e: "queue (audio ?s') = []" and a: "active ?s' = 0" by simp_all
    from a have o: "\<not> outputting (audioPlayer ?s')" by (simp add: active_def split: if_splits)
    moreover from run have "playback_inv ?s'" by simp
    ultimately have "\<not> isPlaying (audio ?s')" by (simp add: playback_inv_def)
    with e o fifo show ?thesis by (simp add: queue_idle_def)
  qed
  note first = enqueue_step [OF inv, of b i t]
  have started: "outputting (audioPlayer (playback_step (Enqueue b i t) s))"
    using first q by (auto simp: playback_inv_def active_def split: if_splits)
  then have playing: "isPlaying (audio (playback_step (Enqueue b i t) s))"
    using first by (simp add: playback_inv_def)
  have "length (play_attempts (audioPlayer (playback_step (Enqueue b i t) s))) =
        Suc (length (play_attempts (audioPlayer s)))"
    using first idle started by (simp add: active_def)
  then have "length (queue (audio (playback_step (Enqueue b i t) s))) = 0"
    using arg_cong [OF conjunct1 [OF conjunct2 [OF first]], of length] q by simp
  then have now: "play_attempts (audioPlayer (playback_step (Enqueue b i t) s)) =
           play_attempts (audioPlayer s) @ [ObjectURL (url_counter (env s)) b]"
    using first q by simp
  show ?thesis
    using run fifo finished now playing by simp
qed

theorem playback_queue_sequential_fifo_witness:
  "queue_idle connected_state \<and> playback_possible three_chunks connected_state \<and>
   completions three_chunks = length (enqueued_urls (url_counter (env connected_state)) three_chunks) \<and>
   play_attempts (audioPlayer (playback_run three_chunks connected_state)) =
     [ObjectURL 0 [1], ObjectURL 1 [2], ObjectURL 2 [3]] \<and>
   interrupted (audioPlayer (playback_run three_chunks connected_state)) = [] \<and>
   queue_idle (playback_run three_chunks connected_state)"
proof -
  have a: "queue_idle connected_state" by code_simp
  have b: "playback_possible three_chunks connected_state" by code_simp
  have c: "url_counter (env connected_state) = 0" by code_simp
  have d: "play_attempts (audioPlayer connected_state) = []"
    "interrupted (audioPlayer connected_state) = []" by code_simp+
  have e: "enqueued_urls 0 three_chunks = [ObjectURL 0 [1], ObjectURL 1 [2], ObjectURL 2 [3]]"
    "completions three_chunks = 3"
    by (simp_all add: three_chunks_def)
  show ?thesis
    using a b playback_queue_sequential_fifo [OF a b] by (simp add: c d e)
qed

subsection \<open>Voice activity detection\<close>

lemma onSpeechDetected_env [simp]: "env (snd (onSpeechDetected start_fault now s)) = env s"
  by (simp add: onSpeechDetected_def Let_def util_defs split: option.split)

lemma onSpeechDetected_no_fault [simp]: "fst (onSpeechDetected None now s) = None"
  by (simp add: onSpeechDetected_def Let_def)

lemma onSilenceDetected_env [simp]: "env (onSilenceDetected now s) = env s"
  by (simp add: onSilenceDetected_def Let_def util_defs)







lemma VAD_start_microphone_failure:
  "VAD_start (Inl e) faults freq now s =
     s\<lparr>elements := (elements s)\<lparr>logs := logs (elements s) @ [(Text (''Microphone error: '' @ message e), LogError)],
                                handsFreeToggle_checked := False\<rparr>,
       vad := (vad s)\<lparr>isEnabled := False\<rparr>\<rparr>"
  by (simp add: VAD_start_def VAD_start_catch_def util_defs Let_def)

lemma VAD_start_recorder_failure:
  assumes "new_AudioContext faults = None" and "createMediaStreamSource faults = None"
    and "new_MediaRecorder faults = Some e"
  shows "vad (VAD_start (Inr st) faults freq now s) =
     (vad s)\<lparr>isEnabled := False, stream := Some st, audioContext := Some AudioContext,
              analyser := Some \<lparr>fftSize = 256, smoothingTimeConstant = 0.8\<rparr>\<rparr>"
  using assms by (simp add: VAD_start_def VAD_start_catch_def util_defs Let_def)

text \<open>
  Claim C9 fails on the code: when the microphone is granted and the \<open>MediaRecorder\<close>
  constructor throws (as where the browser has no \<open>MediaRecorder\<close>), \<open>VAD.start\<close>
  disables hands-free mode but keeps the stream, the audio context and the analyser, with
  no recorder. \<open>VAD.stop\<close>, the other way hands-free mode ends, releases all three.
\<close>

theorem VAD_start_recorder_failure_keeps_resources:
  "\<not> isEnabled (vad failed_start_state) \<and>
   \<not> handsFreeToggle_checked (elements failed_start_state) \<and>
   stream (vad failed_start_state) = Some (MediaStream 0) \<and>
   audioContext (vad failed_start_state) = Some AudioContext \<and>
   analyser (vad failed_start_state) = Some \<lparr>fftSize = 256, smoothingTimeConstant = 0.8\<rparr> \<and>
   vad_mediaRecorder (vad failed_start_state) = None"
  by code_simp

subsection \<open>Capture thresholds\<close>

text \<open>
  Claim C2, as amended. In hands-free mode an utterance whose bytes number fewer than
  \<open>minAudioSize\<close> is dropped by \<open>VAD.onRecordingStop\<close>: no pipeline run is started, no
  socket is created, nothing is sent, and the chunks are discarded.
\<close>

theorem short_utterance_dropped_hands_free:
  assumes "length (concat (audioChunks (vad s))) < minAudioSize CONFIG_VAD"
  shows "fst (VAD_onRecordingStop s) = None \<and>
         env (snd (VAD_onRecordingStop s)) = env s \<and>
         websocket (snd (VAD_onRecordingStop s)) = websocket s \<and>
         pipelineResolve (snd (VAD_onRecordingStop s)) = pipelineResolve s \<and>
         audioChunks (vad (snd (VAD_onRecordingStop s))) = []"
  using assms by (simp add: VAD_onRecordingStop_def Let_def util_defs)

theorem short_utterance_dropped_hands_free_witness:
  "audioChunks (vad hands_free_short_utterance) = [[1, 2, 3]] \<and>
   length (concat (audioChunks (vad hands_free_short_utterance))) < minAudioSize CONFIG_VAD \<and>
   fst (VAD_onRecordingStop hands_free_short_utterance) = None \<and>
   sent (env (snd (VAD_onRecordingStop hands_free_short_utterance))) = []"
proof -
  have a: "audioChunks (vad hands_free_short_utterance) = [[1, 2, 3]]" by code_simp
  have b: "length (concat (audioChunks (vad hands_free_short_utterance))) < minAudioSize CONFIG_VAD"
    by (simp add: a CONFIG_VAD_def)
  have c: "sent (env hands_free_short_utterance) = []" by code_simp
  show ?thesis
    using a b c short_utterance_dropped_hands_free [OF b] by simp
qed

text \<open>
  Claim C2 as stated fails: in manual mode a three-byte utterance, far below
  \<open>minAudioSize\<close>, is sent to the server.
\<close>

theorem manual_capture_below_minimum_is_sent:
  "length [1, 2, 3 :: 8 word] < minAudioSize CONFIG_VAD \<and>
   sent (env connected_state) = [] \<and>
   sent (env manual_short_utterance) =
     [(0, \<lparr>req_data = Base64 [1, 2, 3], req_model = ''llama3.2:1b''\<rparr>)]"
  by code_simp

subsection \<open>Connection\<close>

lemma connect_not_open:
  assumes "websocket_readyState s \<noteq> Some OPEN"
  shows "connect s =
     (promise_counter (env s),
      s\<lparr>websocket := Some (length (sockets (env s))),
        env := (env s)\<lparr>promise_counter := Suc (promise_counter (env s)),
                        sockets := sockets (env s) @
                          [\<lparr>readyState = CONNECTING, opener = promise_counter (env s)\<rparr>]\<rparr>\<rparr>)"
proof -
  have "websocket_readyState (snd (new_promise s)) = websocket_readyState s"
    by (simp add: new_promise_def websocket_readyState_def split: option.split)
  with assms show ?thesis
    by (simp add: connect_def new_promise_def Let_def)
qed

lemma connect_not_open_connecting:
  assumes "websocket_readyState s \<noteq> Some OPEN"
  shows "websocket_readyState (snd (connect s)) = Some CONNECTING"
  by (simp add: connect_not_open [OF assms] websocket_readyState_def)

text \<open>
  Claim C3, as amended. \<open>connect()\<close> reuses the held socket only when it is open. Two
  calls in a row while no socket is open create two sockets, the second replacing the
  first as the held one; each caller's promise is settled by the events of its own
  socket, so one can resolve while the other rejects.
\<close>

theorem connect_while_connecting_opens_another:
  assumes "websocket_readyState s \<noteq> Some OPEN"
    and "s1 = snd (connect s)" and "s2 = snd (connect s1)"
    and "n = length (sockets (env s))"
  shows "websocket_readyState s1 = Some CONNECTING \<and>
         length (sockets (env s2)) = n + 2 \<and>
         websocket s1 = Some n \<and> websocket s2 = Some (Suc n) \<and>
         fst (connect s) \<noteq> fst (connect s1) \<and>
         opener (sockets (env s2) ! n) = fst (connect s) \<and>
         opener (sockets (env s2) ! Suc n) = fst (connect s1) \<and>
         settle_calls (env (websocket_onerror (Suc n) (websocket_onopen n s2))) =
           settle_calls (env s) @
             [(fst (connect s), Resolved (VSocket (Some (Suc n)))),
              (fst (connect s1), Rejected (JsError ''Error'' ''WebSocket connection failed''))]"
proof -
  have c1: "websocket_readyState s1 = Some CONNECTING"
    using connect_not_open_connecting [OF assms(1)] assms(2) by simp
  then have n1: "websocket_readyState s1 \<noteq> Some OPEN" by simp
  note e1 = connect_not_open [OF assms(1)]
  note e2 = connect_not_open [OF n1]
  have s1: "s1 = s\<lparr>websocket := Some n,
        env := (env s)\<lparr>promise_counter := Suc (promise_counter (env s)),
                        sockets := sockets (env s) @
                          [\<lparr>readyState = CONNECTING, opener = promise_counter (env s)\<rparr>]\<rparr>\<rparr>"
    using assms(2,4) e1 by simp
  have s2: "s2 = s\<lparr>websocket := Some (Suc n),
        env := (env s)\<lparr>promise_counter := Suc (Suc (promise_counter (env s))),
                        sockets := sockets (env s) @
                          [\<lparr>readyState = CONNECTING, opener = promise_counter (env s)\<rparr>,
                           \<lparr>readyState = CONNECTING, opener = Suc (promise_counter (env s))\<rparr>]\<rparr>\<rparr>"
    using assms(3,4) e2 s1 by simp
  have p1: "fst (connect s) = promise_counter (env s)" using e1 by simp
  have p2: "fst (connect s1) = Suc (promise_counter (env s))" using e2 s1 by simp
  have ev: "settle_calls (env (websocket_onerror (Suc n) (websocket_onopen n s2))) =
           settle_calls (env s) @
             [(promise_counter (env s), Resolved (VSocket (Some (Suc n)))),
              (Suc (promise_counter (env s)), Rejected (JsError ''Error'' ''WebSocket connection failed''))]"
    using assms(4)
    by (simp add: s2 websocket_onopen_def websocket_onerror_def set_readyState_def util_defs
        Let_def nth_append)
  show ?thesis
    using c1 p1 p2 ev assms(4) by (simp add: s1 s2 nth_append)
qed

theorem connect_while_connecting_opens_another_witness:
  "websocket_readyState initial_state \<noteq> Some OPEN \<and>
   websocket_readyState (snd (connect initial_state)) = Some CONNECTING \<and>
   length (sockets (env (snd (connect (snd (connect initial_state)))))) = 2"
proof -
  have a: "websocket_readyState initial_state \<noteq> Some OPEN" by code_simp
  have b: "length (sockets (env initial_state)) = 0" by code_simp
  show ?thesis
    using a connect_while_connecting_opens_another [OF a refl refl b [symmetric]] by simp
qed

text \<open>
  Claim C3 as stated fails: two calls on the fresh page create two sockets, and when the
  first opens and the second errors the first caller's promise resolves and the second
  caller's rejects.
\<close>

theorem concurrent_connects_open_two_sockets:
  "websocket_readyState (snd (connect initial_state)) = Some CONNECTING \<and>
   length (sockets (env (snd (connect initial_state)))) = 1 \<and>
   length (sockets (env two_connects)) = 2 \<and>
   promise_state (websocket_onerror 1 (websocket_onopen 0 two_connects)) 0
     = Some (Resolved (VSocket (Some 1))) \<and>
   promise_state (websocket_onerror 1 (websocket_onopen 0 two_connects)) 1
     = Some (Rejected (JsError ''Error'' ''WebSocket connection failed''))"
  by code_simp

subsection \<open>Pipeline\<close>

lemma connect_open:
  assumes "websocket_readyState s = Some OPEN"
  shows "connect s =
     (promise_counter (env s),
      s\<lparr>env := (env s)\<lparr>promise_counter := Suc (promise_counter (env s)),
                        settle_calls := settle_calls (env s) @
                          [(promise_counter (env s), Resolved (VSocket (websocket s)))]\<rparr>\<rparr>)"
proof -
  have "websocket_readyState (snd (new_promise s)) = websocket_readyState s"
    by (simp add: new_promise_def websocket_readyState_def split: option.split)
  with assms show ?thesis
    by (simp add: connect_def new_promise_def settle_def Let_def)
qed

lemma websocket_readyState_cong:
  "websocket s' = websocket s \<Longrightarrow> sockets (env s') = sockets (env s) \<Longrightarrow>
   websocket_readyState s' = websocket_readyState s"
  by (simp add: websocket_readyState_def split: option.split)

lemma not_settled_fresh:
  assumes "list_all (\<lambda>c. fst c < (n::nat)) cs" and "n \<le> k"
  shows "k \<notin> fst ` set cs"
proof
  assume "k \<in> fst ` set cs"
  then obtain c where c: "c \<in> set cs" and k: "fst c = k" by auto
  from assms(1) c have "fst c < n" by (simp add: list_all_iff)
  with k assms(2) show False by simp
qed

lemma map_of_fresh:
  assumes "list_all (\<lambda>c. fst c < (n::nat)) cs" and "n \<le> k"
  shows "map_of cs k = None"
  using not_settled_fresh [OF assms] by (simp add: map_of_eq_None_iff)

lemma Pipeline_run_call:
  "fst (Pipeline_run b s) = promise_counter (env s) \<and>
   fst (snd (Pipeline_run b s)) = Suc (promise_counter (env s)) \<and>
   pipelineResolve (snd (snd (Pipeline_run b s))) = pipelineResolve s \<and>
   sent (env (snd (snd (Pipeline_run b s)))) = sent (env s) \<and>
   (settle_calls (env (snd (snd (Pipeline_run b s)))) = settle_calls (env s) \<or>
    settle_calls (env (snd (snd (Pipeline_run b s)))) =
      settle_calls (env s) @ [(Suc (promise_counter (env s)), Resolved (VSocket (websocket s)))])"
proof -
  let ?s1 = "s\<lparr>env := (env s)\<lparr>promise_counter := Suc (promise_counter (env s))\<rparr>\<rparr>"
  have run: "Pipeline_run b s = (promise_counter (env s), fst (connect ?s1), snd (connect ?s1))"
    by (simp add: Pipeline_run_def new_promise_def split_beta)
  show ?thesis
  proof (cases "websocket_readyState ?s1 = Some OPEN")
    case True
    show ?thesis by (simp add: run connect_open [OF True])
  next
    case False
    show ?thesis by (simp add: run connect_not_open [OF False])
  qed
qed

lemma Pipeline_run_encoded_sends:
  assumes "websocket s = Some i" and "websocket_readyState s = Some OPEN"
  shows "Pipeline_run_encoded p b None s =
     s\<lparr>elements := (elements s)\<lparr>logs := logs (elements s) @ [(SendingAudio (length b), LogInfo)]\<rparr>,
       env := (env s)\<lparr>sent := sent (env s) @
         [(i, \<lparr>req_data = Base64 b, req_model = modelSelect_value (elements s)\<rparr>)]\<rparr>\<rparr>"
proof -
  let ?s1 = "log (SendingAudio (length b)) LogInfo s"
  have o: "websocket_readyState ?s1 = Some OPEN"
    using websocket_readyState_cong [of ?s1 s] assms(2) by (simp add: log_def)
  have w: "websocket ?s1 = Some i" using assms(1) by (simp add: log_def)
  show ?thesis
    by (simp add: Pipeline_run_encoded_def websocket_send_def o w Let_def) (simp add: log_def)
qed

lemma Pipeline_run_encoded_not_sent:
  assumes "\<not> (read_error = None \<and> websocket_readyState s = Some OPEN)"
  shows "sent (env (Pipeline_run_encoded p b read_error s)) = sent (env s)"
proof (cases read_error)
  case (Some e)
  then show ?thesis
    by (simp add: Pipeline_run_encoded_def Pipeline_run_catch_def log_def settle_def)
next
  case None
  let ?s1 = "log (SendingAudio (length b)) LogInfo s"
  have o: "websocket_readyState ?s1 = websocket_readyState s"
    using websocket_readyState_cong [of ?s1 s] by (simp add: log_def)
  with assms None have n: "websocket_readyState ?s1 \<noteq> Some OPEN" by simp
  have s: "sent (env ?s1) = sent (env s)" by (simp add: log_def)
  show ?thesis
    using n s
    by (simp add: None Pipeline_run_encoded_def websocket_send_def Pipeline_run_catch_def
        Let_def settle_def log_def
        split: option.split ready_state.split)
qed

text \<open>
  Claim C1, as amended. \<open>Pipeline.run\<close> has no busy check. A call made while a request
  is pending is not refused: it returns a fresh promise that its first segment leaves
  pending; that segment settles no promise but the one of its own \<open>connect()\<close>, sends
  nothing and leaves the pending handle in place. Whenever its \<open>connect()\<close> promise is
  resolved, the next segment puts its own handle in place of the pending one and settles
  nothing. When the blob has been read, the last segment sends exactly one request if
  the read succeeded and the held socket is open, settling nothing, and sends none
  otherwise. A terminal event dispatched while the second call holds the handle settles
  the second request and not the first.
\<close>

theorem run_while_pending_takes_over:
  assumes "pipelineResolve s = Some p0" and "p0 < promise_counter (env s)"
    and "promises_created s"
    and "p = fst (Pipeline_run b s)" and "pc = fst (snd (Pipeline_run b s))"
    and "s1 = snd (snd (Pipeline_run b s))"
  shows "p \<noteq> p0 \<and> promise_state s1 p = None \<and> pipelineResolve s1 = Some p0 \<and>
         sent (env s1) = sent (env s) \<and>
         (q \<noteq> pc \<longrightarrow> times_settled s1 q = times_settled s q) \<and>
         (promise_state s_conn pc = Some (Resolved v) \<longrightarrow>
            pipelineResolve (Pipeline_run_connected p pc now s_conn) = Some p \<and>
            env (Pipeline_run_connected p pc now s_conn) = env s_conn) \<and>
         (read_error = None \<and> websocket s_read = Some i \<and> websocket_readyState s_read = Some OPEN \<longrightarrow>
            sent (env (Pipeline_run_encoded p b read_error s_read)) = sent (env s_read) @
              [(i, \<lparr>req_data = Base64 b, req_model = modelSelect_value (elements s_read)\<rparr>)] \<and>
            settle_calls (env (Pipeline_run_encoded p b read_error s_read)) = settle_calls (env s_read) \<and>
            pipelineResolve (Pipeline_run_encoded p b read_error s_read) = pipelineResolve s_read) \<and>
         (\<not> (read_error = None \<and> websocket_readyState s_read = Some OPEN) \<longrightarrow>
            sent (env (Pipeline_run_encoded p b read_error s_read)) = sent (env s_read)) \<and>
         (pipelineResolve s_term = Some p \<and> msg_type d \<in> Some ` set terminal_types \<longrightarrow>
            settle_calls (env (snd (handleMessage d t s_term))) = settle_calls (env s_term) @
              [(p, Resolved (VBool (msg_type d = Some ''pipeline_done'')))] \<and>
            times_settled (snd (handleMessage d t s_term)) p0 = times_settled s_term p0)"
proof -
  let ?n = "promise_counter (env s)"
  note call = Pipeline_run_call [of b s]
  have p: "p = ?n" and pc: "pc = Suc ?n" using call assms(4,5) by simp_all
  have ne: "p \<noteq> p0" using p assms(2) by simp
  have fresh: "map_of (settle_calls (env s)) ?n = None"
    using map_of_fresh [of ?n "settle_calls (env s)" ?n] assms(3)
    by (simp add: promises_created_def)
  have calls: "settle_calls (env s1) = settle_calls (env s) \<or>
      settle_calls (env s1) = settle_calls (env s) @ [(pc, Resolved (VSocket (websocket s)))]"
    using call assms(6) pc by simp
  have a1: "promise_state s1 p = None"
    using calls fresh by (auto simp: promise_state_def p pc map_add_def)
  have a2: "pipelineResolve s1 = Some p0" "sent (env s1) = sent (env s)"
    using call assms(1,6) by simp_all
  have a3: "times_settled s1 q = times_settled s q" if "q \<noteq> pc"
    using calls that by (auto simp: times_settled_def)
  have b: "pipelineResolve (Pipeline_run_connected p pc now s_conn) = Some p \<and>
           env (Pipeline_run_connected p pc now s_conn) = env s_conn"
    if "promise_state s_conn pc = Some (Resolved v)"
    using that by (simp add: Pipeline_run_connected_def)
  have c1: "sent (env (Pipeline_run_encoded p b read_error s_read)) = sent (env s_read) @
              [(i, \<lparr>req_data = Base64 b, req_model = modelSelect_value (elements s_read)\<rparr>)] \<and>
            settle_calls (env (Pipeline_run_encoded p b read_error s_read)) = settle_calls (env s_read) \<and>
            pipelineResolve (Pipeline_run_encoded p b read_error s_read) = pipelineResolve s_read"
    if "read_error = None \<and> websocket s_read = Some i \<and> websocket_readyState s_read = Some OPEN"
    using that Pipeline_run_encoded_sends [of s_read i p b] by simp
  note c2 = Pipeline_run_encoded_not_sent [of read_error s_read p b]
  have d: "settle_calls (env (snd (handleMessage d t s_term))) = settle_calls (env s_term) @
              [(p, Resolved (VBool (msg_type d = Some ''pipeline_done'')))] \<and>
            times_settled (snd (handleMessage d t s_term)) p0 = times_settled s_term p0"
    if "pipelineResolve s_term = Some p \<and> msg_type d \<in> Some ` set terminal_types"
  proof -
    from that have h: "msg_type d \<in> Some ` set terminal_types" "pipelineResolve s_term = Some p"
      by simp_all
    note ended = handleMessage_terminal_pending [OF h, of t]
    then show ?thesis using ne by (simp add: times_settled_def)
  qed
  show ?thesis
    using ne a1 a2 a3 b c1 c2 d by blast
qed

theorem run_while_pending_takes_over_witness:
  "pipelineResolve (snd first_request) = Some 1 \<and>
   1 < promise_counter (env (snd first_request)) \<and>
   promises_created (snd first_request) \<and>
   promise_state (snd (snd second_call)) (fst (snd second_call)) =
     Some (Resolved (VSocket (Some 0))) \<and>
   websocket second_connected = Some 0 \<and>
   websocket_readyState second_connected = Some OPEN \<and>
   pipelineResolve second_sent = Some (fst second_call) \<and>
   msg_type error_message \<in> Some ` set terminal_types \<and>
   fst second_call \<noteq> 1 \<and>
   promise_state (snd (snd second_call)) (fst second_call) = None \<and>
   times_settled (snd (snd second_call)) 1 = times_settled (snd first_request) 1 \<and>
   pipelineResolve second_connected = Some (fst second_call) \<and>
   sent (env second_sent) = sent (env second_connected) @
     [(0, \<lparr>req_data = Base64 [4, 5, 6], req_model = modelSelect_value (elements second_connected)\<rparr>)] \<and>
   times_settled (snd (handleMessage error_message 300 second_sent)) 1 = times_settled second_sent 1"
proof -
  have a: "pipelineResolve (snd first_request) = Some 1" by code_simp
  have b: "1 < promise_counter (env (snd first_request))" by code_simp
  have c: "promises_created (snd first_request)" by code_simp
  have d: "promise_state (snd (snd second_call)) (fst (snd second_call)) =
     Some (Resolved (VSocket (Some 0)))" by code_simp
  have e: "websocket second_connected = Some 0" "websocket_readyState second_connected = Some OPEN"
    by code_simp+
  have f: "pipelineResolve second_sent = Some (fst second_call)" by code_simp
  have g: "msg_type error_message \<in> Some ` set terminal_types"
    by (simp add: error_message_def bare_message_def terminal_types_def)
  have h: "fst (snd second_call) \<noteq> 1" by code_simp
  note inst = run_while_pending_takes_over [OF a b c refl refl refl,
      where b = "[4, 5, 6]" and q = 1 and s_conn = "snd (snd second_call)"
        and v = "VSocket (Some 0)" and now = 200 and read_error = None
        and s_read = second_connected and i = 0 and s_term = second_sent
        and d = error_message and t = 300,
      folded second_call_def, folded second_connected_def, folded second_sent_def]
  show ?thesis
    using a b c d e f g h inst by simp
qed

text \<open>
  Claim C1 as stated fails: a second \<open>run\<close> while the first is pending is not refused. It
  sends a second request and takes over the pending handle; the terminal event then
  resolves the second caller's promise and the first stays unsettled.
\<close>

theorem second_run_is_not_refused:
  "pipelineResolve (snd first_request) = Some (fst first_request) \<and>
   promise_state (snd first_request) (fst first_request) = None \<and>
   length (sent (env (snd first_request))) = 1 \<and>
   length (sent (env (snd second_request))) = 2 \<and>
   promise_state (snd second_request) (fst second_request) = None \<and>
   pipelineResolve (snd second_request) = Some (fst second_request) \<and>
   fst second_request \<noteq> fst first_request \<and>
   promise_state (snd (handleMessage pipeline_done_message 300 (snd second_request))) (fst second_request)
     = Some (Resolved (VBool True)) \<and>
   promise_state (snd (handleMessage pipeline_done_message 300 (snd second_request))) (fst first_request)
     = None"
  by code_simp

end
